theory Spec2Isabelle
  imports Complex_Main "HOL-Library.Monad_Syntax"
begin

section \<open>Values and text\<close>

text \<open>
  The generator of \<^verbatim>\<open>app.py\<close> works on Python integers (\<open>cols\<close>, \<open>rows\<close>), Python
  floats (\<open>cell\<close>, \<open>height\<close>, \<open>wall\<close>, \<open>clearance\<close> and the numbers of the feature
  dictionaries) and strings. Integers are \<open>int\<close>. Floats are idealised as \<open>real\<close>:
  rounding, overflow and the values \<open>inf\<close> and \<open>nan\<close> are outside the model. The text
  that Python writes for a float inside an f-string is not fixed here: every function
  that formats a float takes the formatter \<open>fmt\<close> as its first argument.

  A feature dictionary holds a flag under \<^verbatim>\<open>'enable'\<close> and numbers under the other keys,
  so its values are booleans or floats.
\<close>

datatype val = B bool | F real

text \<open>Python truth value of a dictionary entry.\<close>

fun truthy :: "val \<Rightarrow> bool" where
  "truthy (B b) = b"
| "truthy (F x) = (x \<noteq> 0)"

text \<open>The number an entry stands for in arithmetic (\<^verbatim>\<open>True\<close> is 1, \<^verbatim>\<open>False\<close> is 0).\<close>

fun num :: "val \<Rightarrow> real" where
  "num (B b) = (if b then 1 else 0)"
| "num (F x) = x"

text \<open>An entry interpolated into an f-string.\<close>

fun format_val :: "(real \<Rightarrow> string) \<Rightarrow> val \<Rightarrow> string" where
  "format_val fmt (B b) = (if b then ''True'' else ''False'')"
| "format_val fmt (F x) = fmt x"

type_synonym dict = "string \<rightharpoonup> val"

text \<open>\<^verbatim>\<open>d.get(k, dflt)\<close>\<close>

definition get :: "dict \<Rightarrow> string \<Rightarrow> val \<Rightarrow> val" where
  "get d k dflt = (case d k of None \<Rightarrow> dflt | Some v \<Rightarrow> v)"

text \<open>
  \<^verbatim>\<open>d and d.get('enable')\<close>, as a condition. The argument is \<open>None\<close> for Python's
  \<^verbatim>\<open>None\<close>. An empty dictionary is false in Python, and it has no \<^verbatim>\<open>'enable'\<close> entry
  either, so the lookup alone decides.
\<close>

definition enable :: "dict option \<Rightarrow> bool" where
  "enable d =
     (case d of
        None \<Rightarrow> False
      | Some m \<Rightarrow> (case m ''enable'' of None \<Rightarrow> False | Some v \<Rightarrow> truthy v))"

text \<open>\<^verbatim>\<open>str\<close> of an integer: decimal digits, with a minus sign when negative.\<close>

definition digit_char :: "nat \<Rightarrow> char" where
  "digit_char d = ''0123456789'' ! (d mod 10)"

fun str_nat :: "nat \<Rightarrow> string" where
  "str_nat n =
     (if n < 10 then [digit_char n] else str_nat (n div 10) @ [digit_char (n mod 10)])"

declare str_nat.simps [simp del]

definition str_int :: "int \<Rightarrow> string" where
  "str_int i = (if i < 0 then CHR ''-'' # str_nat (nat (- i)) else str_nat (nat i))"

text \<open>\<^verbatim>\<open>sep.join(lines)\<close>\<close>

fun join :: "string \<Rightarrow> string list \<Rightarrow> string" where
  "join sep [] = []"
| "join sep [l] = l"
| "join sep (l # m # ls) = l @ sep @ join sep (m # ls)"

definition newline :: string where
  "newline = [CHR 0x0A]"

text \<open>\<^verbatim>\<open>range(n)\<close>: the integers from 0 up to \<open>n - 1\<close>, none when \<open>n \<le> 0\<close>.\<close>

definition py_range :: "int \<Rightarrow> int list" where
  "py_range n = [0..n - 1]"

text \<open>
  The loop nest \<^verbatim>\<open>for x in range(cols): for y in range(rows):\<close> of \<^verbatim>\<open>generate_scad\<close>,
  \<^verbatim>\<open>generate_svg\<close> and \<^verbatim>\<open>preview_svg\<close>: the pairs \<open>(x, y)\<close> in the order in which the
  loop body runs.
\<close>

definition cells :: "int \<Rightarrow> int \<Rightarrow> (int \<times> int) list" where
  "cells cols rows = concat (map (\<lambda>x. map (\<lambda>y. (x, y)) (py_range rows)) (py_range cols))"

section \<open>generate\_scad\<close>

text \<open>Lines 22 to 42: the parameters, the pocket module and the tray module.\<close>

definition tray_lines ::
  "(real \<Rightarrow> string) \<Rightarrow> int \<Rightarrow> int \<Rightarrow> real \<Rightarrow> real \<Rightarrow> real \<Rightarrow> real \<Rightarrow> string list" where
  \<open>tray_lines fmt cols rows cell height wall clearance =
     (let total_x = real_of_int cols * cell;
          total_y = real_of_int rows * cell;
          pocket_w = cell - wall - clearance;
          pocket_h = cell - wall - clearance
      in [''// Generated Gridfinity SCAD'',
          ''cell = '' @ fmt cell @ '';'',
          ''cols = '' @ str_int cols @ '';'',
          ''rows = '' @ str_int rows @ '';'',
          ''height = '' @ fmt height @ '';'',
          ''wall = '' @ fmt wall @ '';'',
          ''clearance = '' @ fmt clearance @ '';'',
          ''module pocket() {'',
          ''  translate([wall/2 + clearance/2, wall/2 + clearance/2, 0])'',
          ''    cube(['' @ fmt pocket_w @ '', '' @ fmt pocket_h @ '', height], center=false);'',
          ''}'',
          ''// outer tray'',
          ''module tray() {'',
          ''  difference() {'',
          ''    cube(['' @ fmt total_x @ '', '' @ fmt total_y
             @ '', height + wall], center=false);'',
          ''    for (x = [0:'' @ str_int (cols - 1) @ '']) for (y = [0:''
             @ str_int (rows - 1) @ ''])'',
          ''      translate([x*cell, y*cell, 0]) pocket();'',
          ''  }'',
          ''}''])\<close>

text \<open>Lines 45 to 58: the body of \<^verbatim>\<open>if grid and grid.get('enable')\<close>.\<close>

definition floor_grid_lines ::
  "(real \<Rightarrow> string) \<Rightarrow> int \<Rightarrow> int \<Rightarrow> real \<Rightarrow> real \<Rightarrow> dict \<Rightarrow> string list" where
  \<open>floor_grid_lines fmt cols rows cell wall grid =
     (let total_x = real_of_int cols * cell;
          total_y = real_of_int rows * cell;
          pitch = get grid ''pitch'' (F 6);
          rib = get grid ''thickness'' (F (3 / 2));
          ribh = get grid ''height'' (F (5 / 2))
      in [''module floor_grid() {'',
          ''  union() {'',
          ''    for (x = ['' @ fmt (num rib / 2) @ '':'' @ format_val fmt pitch @ '':''
             @ fmt (total_x - num rib / 2) @ '']) translate([x, 0, '' @ fmt wall
             @ '']) cube(['' @ format_val fmt rib @ '', '' @ fmt total_y @ '', ''
             @ format_val fmt ribh @ ''], center=false);'',
          ''    for (y = ['' @ fmt (num rib / 2) @ '':'' @ format_val fmt pitch @ '':''
             @ fmt (total_y - num rib / 2) @ '']) translate([0, y, '' @ fmt wall
             @ '']) cube(['' @ fmt total_x @ '', '' @ format_val fmt rib @ '', ''
             @ format_val fmt ribh @ ''], center=false);'',
          ''  }'',
          ''}'',
          ''floor_grid();''])\<close>

text \<open>Lines 69 and 70 (and 173, 174): \<^verbatim>\<open>cx\<close> and \<^verbatim>\<open>cy\<close> for the cell \<open>(x, y)\<close>.\<close>

definition post_center :: "real \<Rightarrow> int \<times> int \<Rightarrow> real \<times> real" where
  "post_center cell c =
     (real_of_int (fst c) * cell + cell / 2, real_of_int (snd c) * cell + cell / 2)"

text \<open>Line 71: the cylinder written for the cell \<open>(x, y)\<close>.\<close>

definition post_line ::
  "(real \<Rightarrow> string) \<Rightarrow> real \<Rightarrow> real \<Rightarrow> val \<Rightarrow> val \<Rightarrow> int \<times> int \<Rightarrow> string" where
  \<open>post_line fmt cell wall d h c =
     (let cx = fst (post_center cell c);
          cy = snd (post_center cell c)
      in ''    translate(['' @ fmt cx @ '', '' @ fmt cy @ '', '' @ fmt wall
         @ '']) cylinder(h='' @ format_val fmt h @ '', r='' @ fmt (num d / 2)
         @ '', $fn=32);'')\<close>

text \<open>Lines 61 to 74: the body of \<^verbatim>\<open>if posts and posts.get('enable')\<close>.\<close>

definition posts_lines ::
  "(real \<Rightarrow> string) \<Rightarrow> int \<Rightarrow> int \<Rightarrow> real \<Rightarrow> real \<Rightarrow> dict \<Rightarrow> string list" where
  \<open>posts_lines fmt cols rows cell wall posts =
     (let d = get posts ''diameter'' (F 6);
          h = get posts ''height'' (F 4)
      in [''module posts() {'', ''  union() {'']
         @ map (post_line fmt cell wall d h) (cells cols rows)
         @ [''  }'', ''}'', ''posts();''])\<close>

text \<open>The list \<^verbatim>\<open>scad\<close> when the function returns.\<close>

definition scad_lines ::
  "(real \<Rightarrow> string) \<Rightarrow> int \<Rightarrow> int \<Rightarrow> real \<Rightarrow> real \<Rightarrow> real \<Rightarrow> real
     \<Rightarrow> dict option \<Rightarrow> dict option \<Rightarrow> string list" where
  "scad_lines fmt cols rows cell height wall clearance grid posts =
     tray_lines fmt cols rows cell height wall clearance
     @ (case grid of
          None \<Rightarrow> []
        | Some g \<Rightarrow> if enable grid then floor_grid_lines fmt cols rows cell wall g else [])
     @ (case posts of
          None \<Rightarrow> []
        | Some p \<Rightarrow> if enable posts then posts_lines fmt cols rows cell wall p else [])
     @ [''tray();'']"

definition generate_scad ::
  "(real \<Rightarrow> string) \<Rightarrow> int \<Rightarrow> int \<Rightarrow> real \<Rightarrow> real \<Rightarrow> real \<Rightarrow> real
     \<Rightarrow> dict option \<Rightarrow> dict option \<Rightarrow> string" where
  "generate_scad fmt cols rows cell height wall clearance grid posts =
     join newline (scad_lines fmt cols rows cell height wall clearance grid posts)"

text \<open>
  The ways a call can end. \<open>InvalidGeometry\<close> is the failure that the specification
  names; \<open>ValueError\<close> is what \<^verbatim>\<open>float\<close> raises on a malformed query value.
  \<^verbatim>\<open>generate_scad\<close> has no \<^verbatim>\<open>raise\<close> and no check of its arguments: its one exit is
  the \<^verbatim>\<open>return\<close> of line 77.
\<close>

datatype error = InvalidGeometry | ValueError


section \<open>generate\_svg\<close>

text \<open>Line 98: the rectangle written for the cell \<open>(x, y)\<close>.\<close>

definition rect_line :: "(real \<Rightarrow> string) \<Rightarrow> real \<Rightarrow> real \<Rightarrow> int \<times> int \<Rightarrow> string" where
  \<open>rect_line fmt cell wall c =
     (let inset = wall / 2;
          pocket_w = cell - wall;
          pocket_h = cell - wall;
          px = real_of_int (fst c) * cell + inset;
          py = real_of_int (snd c) * cell + inset
      in ''<rect x="'' @ fmt px @ ''" y="'' @ fmt py @ ''" width="'' @ fmt pocket_w
         @ ''" height="'' @ fmt pocket_h @ ''" />'')\<close>

text \<open>Lines 86 to 89: the opening tag, the style and the outer border.\<close>

definition svg_head :: "(real \<Rightarrow> string) \<Rightarrow> int \<Rightarrow> int \<Rightarrow> real \<Rightarrow> string list" where
  \<open>svg_head fmt cols rows cell =
     (let width = real_of_int cols * cell;
          height = real_of_int rows * cell;
          viewbox = ''0 0 '' @ fmt width @ '' '' @ fmt height
      in [''<svg xmlns="http://www.w3.org/2000/svg" viewBox="'' @ viewbox @ ''" width="''
            @ fmt width @ ''px" height="'' @ fmt height @ ''px">'',
          ''<style>rect{fill:#f5f5f5;stroke:#333;stroke-width:0.5}</style>'',
          ''<rect x="0" y="0" width="'' @ fmt width @ ''" height="'' @ fmt height
            @ ''" fill="none" stroke="#000" stroke-width="1"/>''])\<close>

text \<open>The list \<^verbatim>\<open>svg\<close> when the function returns.\<close>

definition svg_lines :: "(real \<Rightarrow> string) \<Rightarrow> int \<Rightarrow> int \<Rightarrow> real \<Rightarrow> real \<Rightarrow> string list" where
  "svg_lines fmt cols rows cell wall =
     svg_head fmt cols rows cell
     @ map (rect_line fmt cell wall) (cells cols rows)
     @ [''</svg>'']"

definition generate_svg :: "(real \<Rightarrow> string) \<Rightarrow> int \<Rightarrow> int \<Rightarrow> real \<Rightarrow> real \<Rightarrow> string" where
  "generate_svg fmt cols rows cell wall = join newline (svg_lines fmt cols rows cell wall)"

section \<open>Python string operations\<close>

text \<open>\<^verbatim>\<open>s.startswith(p)\<close>\<close>

fun startswith :: "string \<Rightarrow> string \<Rightarrow> bool" where
  "startswith s [] = True"
| "startswith [] (p # ps) = False"
| "startswith (c # cs) (p # ps) = (c = p \<and> startswith cs ps)"

text \<open>\<^verbatim>\<open>sub in s\<close>\<close>

fun contains :: "string \<Rightarrow> string \<Rightarrow> bool" where
  "contains [] sub = (sub = [])"
| "contains (c # cs) sub = (if startswith (c # cs) sub then True else contains cs sub)"

text \<open>
  \<^verbatim>\<open>s.replace(old, new)\<close>: every occurrence of \<open>old\<close>, found from the left and not
  overlapping an earlier one, becomes \<open>new\<close>. With an empty \<open>old\<close>, Python puts
  \<open>new\<close> before every character and at the end.
\<close>

function replace_from :: "string \<Rightarrow> string \<Rightarrow> string \<Rightarrow> string" where
  "replace_from [] old new = []"
| "replace_from (c # cs) old new =
     (if startswith (c # cs) old then new @ replace_from (drop (length old - 1) cs) old new
      else c # replace_from cs old new)"
  by pat_completeness auto
termination
  by (relation "measure (\<lambda>(s, old, new). length s)") auto

definition replace :: "string \<Rightarrow> string \<Rightarrow> string \<Rightarrow> string" where
  "replace s old new =
     (if old = [] then new @ concat (map (\<lambda>c. c # new) s) else replace_from s old new)"

text \<open>
  Two auxiliary predicates for reasoning about \<^verbatim>\<open>in\<close> and \<^verbatim>\<open>replace\<close>. The first holds
  when one of two texts is a prefix of the other. The second holds of a pattern and a
  text when no occurrence of the pattern can begin inside the text, whatever follows
  the text.
\<close>

fun compatible :: "string \<Rightarrow> string \<Rightarrow> bool" where
  "compatible [] p = True"
| "compatible (c # s) [] = True"
| "compatible (c # s) (d # p) = (c = d \<and> compatible s p)"

fun clear_of :: "string \<Rightarrow> string \<Rightarrow> bool" where
  "clear_of pat [] = True"
| "clear_of pat (c # s) = (if compatible (c # s) pat then False else clear_of pat s)"

section \<open>The routes\<close>

text \<open>
  A query parameter that is parsed by \<^verbatim>\<open>int\<close> or \<^verbatim>\<open>float\<close> is absent, or present
  with a text that the conversion rejects, or present with the value it converts to.
  The flags \<^verbatim>\<open>grid\<close> and \<^verbatim>\<open>posts\<close> are compared as text.
\<close>

datatype 'a arg = Absent | Malformed | Given 'a

text \<open>\<^verbatim>\<open>int(request.args.get(k, dflt))\<close> and its \<^verbatim>\<open>float\<close> twin; \<open>None\<close> is the exception.\<close>

fun parsed :: "'a arg \<Rightarrow> 'a \<Rightarrow> 'a option" where
  "parsed Absent dflt = Some dflt"
| "parsed Malformed dflt = None"
| "parsed (Given v) dflt = Some v"

text \<open>\<^verbatim>\<open>request.args.get(k, dflt) in ('1','true','yes')\<close>\<close>

definition flag :: "string option \<Rightarrow> string \<Rightarrow> bool" where
  "flag a dflt = ((case a of None \<Rightarrow> dflt | Some s \<Rightarrow> s) \<in> set [''1'', ''true'', ''yes''])"

record query =
  q_cols :: "int arg"
  q_rows :: "int arg"
  q_cell :: "real arg"
  q_height :: "real arg"
  q_wall :: "real arg"
  q_posts :: "string option"
  q_grid :: "string option"
  q_post_d :: "real arg"
  q_post_h :: "real arg"
  q_grid_pitch :: "real arg"
  q_grid_thick :: "real arg"
  q_grid_h :: "real arg"

record response =
  status :: nat
  body :: string
  mimetype :: "string option"
  download_name :: "string option"

definition invalid_parameters :: response where
  "invalid_parameters =
     \<lparr>status = 400, body = ''Invalid parameters'', mimetype = None, download_name = None\<rparr>"

text \<open>Line 175: the marker written for the cell \<open>(x, y)\<close>.\<close>

definition circle_line :: "(real \<Rightarrow> string) \<Rightarrow> real \<Rightarrow> real \<Rightarrow> int \<times> int \<Rightarrow> string" where
  \<open>circle_line fmt cell post_d c =
     (let cx = fst (post_center cell c);
          cy = snd (post_center cell c)
      in ''<circle cx="'' @ fmt cx @ ''" cy="'' @ fmt cy @ ''" r="'' @ fmt (post_d / 2)
         @ ''" fill="#666" opacity="0.6" />'')\<close>

text \<open>Line 177: the text that takes the place of the closing tag.\<close>

definition markers :: "(real \<Rightarrow> string) \<Rightarrow> int \<Rightarrow> int \<Rightarrow> real \<Rightarrow> real \<Rightarrow> string" where
  "markers fmt cols rows cell post_d =
     newline @ join newline (map (circle_line fmt cell post_d) (cells cols rows))
     @ newline @ ''</svg>''"

definition preview_svg :: "(real \<Rightarrow> string) \<Rightarrow> query \<Rightarrow> response" where
  "preview_svg fmt q =
     (case do {
             cols \<leftarrow> parsed (q_cols q) 3;
             rows \<leftarrow> parsed (q_rows q) 2;
             cell \<leftarrow> parsed (q_cell q) 51;
             wall \<leftarrow> parsed (q_wall q) 3;
             post_d \<leftarrow> parsed (q_post_d q) 6;
             post_h \<leftarrow> parsed (q_post_h q) 4;
             grid_pitch \<leftarrow> parsed (q_grid_pitch q) 6;
             grid_thick \<leftarrow> parsed (q_grid_thick q) (3 / 2);
             grid_h \<leftarrow> parsed (q_grid_h q) (5 / 2);
             Some (max 1 (min 80 cols), max 1 (min 80 rows), cell, wall, post_d)
           } of
        None \<Rightarrow> invalid_parameters
      | Some (cols, rows, cell, wall, post_d) \<Rightarrow>
          (let post_enable = flag (q_posts q) ''0'';
               svg = generate_svg fmt cols rows cell wall;
               svg' = (if post_enable
                       then replace svg ''</svg>'' (markers fmt cols rows cell post_d)
                       else svg)
           in \<lparr>status = 200, body = svg', mimetype = Some ''image/svg+xml'',
                download_name = None\<rparr>))"

text \<open>\<^verbatim>\<open>int(cell)\<close> in the file name: the float cut towards zero.\<close>

definition int_of_float :: "real \<Rightarrow> int" where
  "int_of_float x = (if 0 \<le> x then \<lfloor>x\<rfloor> else \<lceil>x\<rceil>)"

text \<open>
  \<^verbatim>\<open>download_scad\<close>. The first five conversions are inside the \<^verbatim>\<open>try\<close>; the five
  of the dictionaries are after it, so there a malformed value leaves the route as
  an exception.
\<close>

definition download_scad :: "(real \<Rightarrow> string) \<Rightarrow> query \<Rightarrow> error + response" where
  "download_scad fmt q =
     (case do {
             cols \<leftarrow> parsed (q_cols q) 3;
             rows \<leftarrow> parsed (q_rows q) 2;
             cell \<leftarrow> parsed (q_cell q) 51;
             height \<leftarrow> parsed (q_height q) 12;
             wall \<leftarrow> parsed (q_wall q) 3;
             Some (max 1 (min 80 cols), max 1 (min 80 rows), cell, height, wall)
           } of
        None \<Rightarrow> Inr invalid_parameters
      | Some (cols, rows, cell, height, wall) \<Rightarrow>
          (case do {
                  pitch \<leftarrow> parsed (q_grid_pitch q) 6;
                  thickness \<leftarrow> parsed (q_grid_thick q) (3 / 2);
                  grid_h \<leftarrow> parsed (q_grid_h q) (5 / 2);
                  diameter \<leftarrow> parsed (q_post_d q) 6;
                  post_h \<leftarrow> parsed (q_post_h q) 4;
                  Some (map_of [(''enable'', B (flag (q_grid q) ''1'')), (''pitch'', F pitch),
                                (''thickness'', F thickness), (''height'', F grid_h)],
                        map_of [(''enable'', B (flag (q_posts q) ''0'')),
                                (''diameter'', F diameter), (''height'', F post_h)])
                } of
             None \<Rightarrow> Inl ValueError
           | Some (grid, posts) \<Rightarrow>
               Inr \<lparr>status = 200,
                    body = generate_scad fmt cols rows cell height wall (2 / 10)
                             (Some grid) (Some posts),
                    mimetype = Some ''text/plain'',
                    download_name = Some (''gridfinity_'' @ str_int cols @ ''x'' @ str_int rows
                                          @ ''_'' @ str_int (int_of_float cell) @ ''mm.scad'')\<rparr>))"

text \<open>The request that carries no query parameter.\<close>

definition empty_query :: query where
  "empty_query =
     \<lparr>q_cols = Absent, q_rows = Absent, q_cell = Absent, q_height = Absent, q_wall = Absent,
      q_posts = None, q_grid = None, q_post_d = Absent, q_post_h = Absent,
      q_grid_pitch = Absent, q_grid_thick = Absent, q_grid_h = Absent\<rparr>"

section \<open>A decimal formatter\<close>

text \<open>
  Where a closed instance of the formatter is needed, \<open>repr_dec\<close> stands for Python's
  \<^verbatim>\<open>repr\<close> of a float: sign, integer part, point, and the decimal digits of the fraction
  up to the last one that is not zero (at least one, at most 17). On numbers such as
  \<open>51.0\<close>, \<open>47.8\<close>, \<open>0.75\<close> and \<open>-0.5\<close> it writes what Python writes.
\<close>

fun frac_digits :: "nat \<Rightarrow> real \<Rightarrow> string" where
  "frac_digits 0 r = []"
| "frac_digits (Suc n) r =
     (let d = nat \<lfloor>10 * r\<rfloor>;
          r' = 10 * r - real d
      in digit_char d # (if r' = 0 then [] else frac_digits n r'))"

definition repr_dec :: "real \<Rightarrow> string" where
  "repr_dec x =
     (if x < 0 then ''-'' else [])
     @ str_nat (nat \<lfloor>\<bar>x\<bar>\<rfloor>) @ ''.'' @ frac_digits 17 (\<bar>x\<bar> - real_of_int \<lfloor>\<bar>x\<bar>\<rfloor>)"

section \<open>Reading the emitted OpenSCAD program\<close>

text \<open>
  \<^verbatim>\<open>generate_scad\<close> leaves two loops to OpenSCAD: the pockets of the tray (lines 39
  and 40) and the ribs of the floor grid (lines 53 and 55). What these loops stand for
  is read off the emitted text with the meaning OpenSCAD gives to its constructs:
  a range \<^verbatim>\<open>[a:b]\<close> runs through \<open>a, a + 1, \<dots>\<close> up to and including \<open>b\<close>; a range
  \<^verbatim>\<open>[b:s:e]\<close> with a positive step runs through \<open>b, b + s, b + 2s, \<dots>\<close> as long as
  the value does not exceed \<open>e\<close>; of two nested \<^verbatim>\<open>for\<close> the first is the outer loop;
  nested \<^verbatim>\<open>translate\<close> add up.
\<close>

text \<open>
  The loop values \<open>(x, y)\<close> of
  \<^verbatim>\<open>for (x = [0:cols-1]) for (y = [0:rows-1])\<close>, in the order of evaluation.
\<close>

definition scad_loop_cells :: "int \<Rightarrow> int \<Rightarrow> (int \<times> int) list" where
  "scad_loop_cells cols rows =
     concat (map (\<lambda>x. map (\<lambda>y. (x, y)) [0..rows - 1]) [0..cols - 1])"






section \<open>The order named by the specification\<close>

text \<open>
  The specification calls the order of the pocket origins row-major, \<open>x\<close> fastest:
  all cells of the row \<open>y = 0\<close> first, then those of \<open>y = 1\<close>, and so on. This
  definition follows the specification's words and is compared with \<open>cells\<close>.
\<close>

definition row_major_spec :: "int \<Rightarrow> int \<Rightarrow> (int \<times> int) list" where
  "row_major_spec cols rows =
     concat (map (\<lambda>y. map (\<lambda>x. (x, y)) (py_range cols)) (py_range rows))"

section \<open>Properties\<close>

subsection \<open>The cells and the joined text\<close>

lemma length_py_range: "length (py_range n) = nat n"
  by (simp add: py_range_def)





lemma join_snoc: "ls \<noteq> [] \<Longrightarrow> join sep (ls @ [l]) = join sep ls @ sep @ l"
  by (induction sep ls rule: join.induct) auto

subsection \<open>generate\_scad returns for every input\<close>


subsection \<open>No geometric validation\<close>




subsection \<open>The preview document\<close>


subsection \<open>The posts\<close>



subsection \<open>The tray and its pockets\<close>

lemma scad_loop_cells_eq: "scad_loop_cells cols rows = cells cols rows"
  by (simp add: scad_loop_cells_def cells_def py_range_def)



subsection \<open>The order of the cells\<close>

lemma cells_product: "cells cols rows = List.product (py_range cols) (py_range rows)"
  by (simp add: cells_def product_concat_map)

lemma cells_nth:
  assumes "0 \<le> x" "x < cols" "0 \<le> y" "y < rows"
  shows "cells cols rows ! nat (x * rows + y) = (x, y)"
proof -
  have n: "nat (x * rows + y) = nat x * nat rows + nat y"
    using assms by (simp add: nat_add_distrib nat_mult_distrib)
  have yr: "nat y < nat rows"
    using assms by simp
  have xc: "nat x < nat cols"
    using assms by simp
  have "nat x * nat rows + nat y < nat x * nat rows + nat rows"
    using yr by simp
  also have "\<dots> = Suc (nat x) * nat rows"
    by simp
  also have "\<dots> \<le> nat cols * nat rows"
  proof (rule mult_le_mono1)
    show "Suc (nat x) \<le> nat cols"
      using xc by (rule Suc_leI)
  qed
  finally have lt: "nat x * nat rows + nat y < length (py_range cols) * length (py_range rows)"
    by (simp add: length_py_range)
  have d: "(nat x * nat rows + nat y) div nat rows = nat x"
    using yr by simp
  have m: "(nat x * nat rows + nat y) mod nat rows = nat y"
    using yr by simp
  have px: "py_range cols ! nat x = x"
    using assms by (simp add: py_range_def)
  have py: "py_range rows ! nat y = y"
    using assms by (simp add: py_range_def)
  have "List.product (py_range cols) (py_range rows) ! (nat x * nat rows + nat y)
      = (py_range cols ! nat x, py_range rows ! nat y)"
    using product_nth [OF lt] unfolding length_py_range d m .
  then show ?thesis
    unfolding cells_product n px py .
qed

text \<open>
  C7, as stated, fails on the code. The claim calls the common order row-major with
  \<open>x\<close> fastest. On a 2 by 2 grid the loops of the code visit \<open>(0,0), (0,1), (1,0), (1,1)\<close>,
  while row-major order is \<open>(0,0), (1,0), (0,1), (1,1)\<close>: the second pocket rectangle of
  the preview is that of the cell \<open>(0, 1)\<close>.
\<close>

theorem row_major_counterexample:
  \<open>cells 2 2 = [(0, 0), (0, 1), (1, 0), (1, 1)]
   \<and> row_major_spec 2 2 = [(0, 0), (1, 0), (0, 1), (1, 1)]
   \<and> cells 2 2 \<noteq> row_major_spec 2 2
   \<and> svg_lines repr_dec 2 2 51 3 ! 4 = ''<rect x="1.5" y="52.5" width="48.0" height="48.0" />''\<close>
  by code_simp

text \<open>
  C7, amended. Both emitters go through the cells in the same order, with \<open>x\<close> in the
  outer loop and \<open>y\<close> in the inner one (\<open>y\<close> fastest). The preview writes its pocket
  rectangles in the order of \<open>cells\<close>; the model text leaves the loop
  \<^verbatim>\<open>for (x = [0:cols-1]) for (y = [0:rows-1])\<close> to OpenSCAD, whose loop values come in
  the same order; and in that order the cell \<open>(x, y)\<close> has the position \<open>x * rows + y\<close>.
\<close>

theorem same_cell_order:
  \<open>0 \<le> x \<Longrightarrow> x < cols \<Longrightarrow> 0 \<le> y \<Longrightarrow> y < rows \<Longrightarrow>
   svg_lines fmt cols rows cell wall
     = svg_head fmt cols rows cell @ map (rect_line fmt cell wall) (cells cols rows)
       @ [''</svg>'']
   \<and> scad_lines fmt cols rows cell height wall clearance grid posts ! 15
     = ''    for (x = [0:'' @ str_int (cols - 1) @ '']) for (y = [0:''
       @ str_int (rows - 1) @ ''])''
   \<and> scad_loop_cells cols rows = cells cols rows
   \<and> cells cols rows ! nat (x * rows + y) = (x, y)\<close>
  by (simp add: svg_lines_def scad_lines_def tray_lines_def Let_def scad_loop_cells_eq
      cells_nth)

theorem same_cell_order_witness:
  \<open>(0::int) \<le> 0 \<and> (0::int) < 2 \<and> (0::int) \<le> 1 \<and> (1::int) < 2
   \<and> scad_loop_cells 2 2 = cells 2 2
   \<and> cells 2 2 ! nat (0 * 2 + 1) = (0, 1)\<close>
  using same_cell_order [of 0 2 1 2] by simp

subsection \<open>The ribs of the floor grid\<close>








subsection \<open>The defaults of the features\<close>

lemma download_scad_document:
  assumes "download_scad fmt q = Inr r" and "status r = 200"
  shows "\<exists>c r' ce h w gp gt gh pd ph.
           body r = generate_scad fmt c r' ce h w (2 / 10)
             (Some (map_of [(''enable'', B (flag (q_grid q) ''1'')), (''pitch'', F gp),
                            (''thickness'', F gt), (''height'', F gh)]))
             (Some (map_of [(''enable'', B (flag (q_posts q) ''0'')),
                            (''diameter'', F pd), (''height'', F ph)]))"
  using assms unfolding download_scad_def invalid_parameters_def
  apply (auto split: option.splits Option.bind_splits)
  apply (intro exI)
  apply (rule refl)
  done

lemma default_flags: "flag None ''1''" "\<not> flag None ''0''"
  by (simp_all add: flag_def)

text \<open>
  C4, as stated, fails on the code. The claim has both features disabled by default,
  so that a request which does not name them gets neither section. In
  \<^verbatim>\<open>download_scad\<close> the flag \<^verbatim>\<open>grid\<close> defaults to \<^verbatim>\<open>'1'\<close>: the request without any
  query parameter is answered with a document that holds the floor grid.
\<close>

theorem default_grid_counterexample:
  \<open>download_scad repr_dec empty_query =
     Inr \<lparr>status = 200,
          body = join newline
            [''// Generated Gridfinity SCAD'',
             ''cell = 51.0;'',
             ''cols = 3;'',
             ''rows = 2;'',
             ''height = 12.0;'',
             ''wall = 3.0;'',
             ''clearance = 0.2;'',
             ''module pocket() {'',
             ''  translate([wall/2 + clearance/2, wall/2 + clearance/2, 0])'',
             ''    cube([47.8, 47.8, height], center=false);'',
             ''}'',
             ''// outer tray'',
             ''module tray() {'',
             ''  difference() {'',
             ''    cube([153.0, 102.0, height + wall], center=false);'',
             ''    for (x = [0:2]) for (y = [0:1])'',
             ''      translate([x*cell, y*cell, 0]) pocket();'',
             ''  }'',
             ''}'',
             ''module floor_grid() {'',
             ''  union() {'',
             ''    for (x = [0.75:6.0:152.25]) translate([x, 0, 3.0]) cube([1.5, 102.0, 2.5], center=false);'',
             ''    for (y = [0.75:6.0:101.25]) translate([0, y, 3.0]) cube([153.0, 1.5, 2.5], center=false);'',
             ''  }'',
             ''}'',
             ''floor_grid();'',
             ''tray();''],
          mimetype = Some ''text/plain'',
          download_name = Some ''gridfinity_3x2_51mm.scad''\<rparr>\<close>
  by code_simp

text \<open>
  C4, amended. The parameters \<^verbatim>\<open>grid\<close> and \<^verbatim>\<open>posts\<close> of \<^verbatim>\<open>generate_scad\<close> default to
  \<^verbatim>\<open>None\<close>, and a call without them returns the tray alone, with no floor-grid and no
  posts section. In the route the posts default to disabled and the floor grid to
  enabled: a request that names neither flag and is answered with a document gets
  the tray, the floor grid and no posts.
\<close>

theorem feature_defaults:
  \<open>q_grid q = None \<Longrightarrow> q_posts q = None \<Longrightarrow> download_scad fmt q = Inr r \<Longrightarrow>
   status r = 200 \<Longrightarrow>
   scad_lines fmt cols rows cell height wall clearance None None
     = tray_lines fmt cols rows cell height wall clearance @ [''tray();'']
   \<and> (\<exists>c r' ce h w g.
         body r = join newline
           (tray_lines fmt c r' ce h w (2 / 10) @ floor_grid_lines fmt c r' ce w g
            @ [''tray();'']))\<close>
proof -
  assume g: "q_grid q = None" and p: "q_posts q = None"
    and d: "download_scad fmt q = Inr r" and s: "status r = 200"
  have a: "scad_lines fmt cols rows cell height wall clearance None None
      = tray_lines fmt cols rows cell height wall clearance @ [''tray();'']"
    by (simp add: scad_lines_def)
  from download_scad_document [OF d s] obtain c r' ce h w gp gt gh pd ph where
    b: "body r = generate_scad fmt c r' ce h w (2 / 10)
          (Some (map_of [(''enable'', B (flag (q_grid q) ''1'')), (''pitch'', F gp),
                         (''thickness'', F gt), (''height'', F gh)]))
          (Some (map_of [(''enable'', B (flag (q_posts q) ''0'')),
                         (''diameter'', F pd), (''height'', F ph)]))"
    by blast
  have "body r = join newline
      (tray_lines fmt c r' ce h w (2 / 10)
       @ floor_grid_lines fmt c r' ce w
           (map_of [(''enable'', B True), (''pitch'', F gp), (''thickness'', F gt),
                    (''height'', F gh)])
       @ [''tray();''])"
    unfolding b g p by (simp add: generate_scad_def scad_lines_def enable_def default_flags)
  with a show ?thesis
    by blast
qed

theorem feature_defaults_witness:
  \<open>q_grid empty_query = None \<and> q_posts empty_query = None
   \<and> (\<exists>r. download_scad repr_dec empty_query = Inr r \<and> status r = 200
          \<and> (\<exists>c r' ce h w g.
                body r = join newline
                  (tray_lines repr_dec c r' ce h w (2 / 10)
                   @ floor_grid_lines repr_dec c r' ce w g @ [''tray();''])))\<close>
proof -
  have g: "q_grid empty_query = None" and p: "q_posts empty_query = None"
    by (simp_all add: empty_query_def)
  obtain r where d: "download_scad repr_dec empty_query = Inr r" and s: "status r = 200"
    by (simp add: download_scad_def empty_query_def)
  from feature_defaults [OF g p d s] g p d s show ?thesis
    by blast
qed

subsection \<open>Occurrences of a pattern\<close>

lemma startswith_compatible: "startswith (s @ rest) pat \<Longrightarrow> compatible s pat"
  by (induction s pat rule: compatible.induct) auto

lemma compatible_append: "compatible (s @ rest) pat \<Longrightarrow> compatible s pat"
  by (induction s pat rule: compatible.induct) auto

lemma clear_of_append: "clear_of pat a \<Longrightarrow> clear_of pat b \<Longrightarrow> clear_of pat (a @ b)"
proof (induction a)
  case Nil
  then show ?case by simp
next
  case (Cons c a)
  from Cons.prems(1) have nc: "\<not> compatible (c # a) pat" and ca: "clear_of pat a"
    by (auto split: if_splits)
  from nc have "\<not> compatible ((c # a) @ b) pat"
    using compatible_append by blast
  with Cons.IH [OF ca Cons.prems(2)] show ?case
    by simp
qed

lemma clear_of_fresh: "c \<notin> set s \<Longrightarrow> clear_of (c # pat) s"
  by (induction s) auto

lemma clear_of_join:
  "clear_of pat sep \<Longrightarrow> (\<And>l. l \<in> set ls \<Longrightarrow> clear_of pat l) \<Longrightarrow> clear_of pat (join sep ls)"
  by (induction sep ls rule: join.induct) (auto intro!: clear_of_append)

lemma contains_clear: "clear_of pat s \<Longrightarrow> pat \<noteq> [] \<Longrightarrow> contains (s @ rest) pat = contains rest pat"
proof (induction s)
  case Nil
  then show ?case by simp
next
  case (Cons c s)
  from Cons.prems(1) have nc: "\<not> compatible (c # s) pat" and cs: "clear_of pat s"
    by (auto split: if_splits)
  from nc have "\<not> startswith ((c # s) @ rest) pat"
    using startswith_compatible by blast
  with Cons.IH [OF cs Cons.prems(2)] show ?case
    by simp
qed

lemma replace_from_clear:
  "clear_of pat s \<Longrightarrow> replace_from (s @ rest) pat new = s @ replace_from rest pat new"
proof (induction s)
  case Nil
  then show ?case by simp
next
  case (Cons c s)
  from Cons.prems have nc: "\<not> compatible (c # s) pat" and cs: "clear_of pat s"
    by (auto split: if_splits)
  from nc have "\<not> startswith ((c # s) @ rest) pat"
    using startswith_compatible by blast
  with Cons.IH [OF cs] show ?case
    by simp
qed

subsection \<open>The text of the preview\<close>

lemma clear_of_fmt:
  assumes "\<forall>x. CHR ''<'' \<notin> set (fmt x)"
  shows "clear_of (CHR ''<'' # pat) (fmt x)"
  using assms by (simp add: clear_of_fresh)

lemma clear_of_fmt_append:
  assumes "\<forall>x. CHR ''<'' \<notin> set (fmt x)" and "clear_of (CHR ''<'' # pat) rest"
  shows "clear_of (CHR ''<'' # pat) (fmt x @ rest)"
  using assms by (simp add: clear_of_fresh clear_of_append)

lemma clear_of_rect_line:
  assumes "\<forall>x. CHR ''<'' \<notin> set (fmt x)"
  shows \<open>clear_of ''</svg>'' (rect_line fmt cell wall c)\<close>
    and \<open>clear_of ''<circle'' (rect_line fmt cell wall c)\<close>
  by (simp_all add: rect_line_def Let_def clear_of_fmt_append [OF assms])

lemma clear_of_svg_head:
  assumes "\<forall>x. CHR ''<'' \<notin> set (fmt x)" and "l \<in> set (svg_head fmt cols rows cell)"
  shows \<open>clear_of ''</svg>'' l\<close> and \<open>clear_of ''<circle'' l\<close>
  using assms(2)
  by (auto simp add: svg_head_def Let_def clear_of_fmt_append [OF assms(1)])

lemma clear_of_svg_body:
  assumes "\<forall>x. CHR ''<'' \<notin> set (fmt x)"
  shows \<open>clear_of ''</svg>''
           (join newline (svg_head fmt cols rows cell
                          @ map (rect_line fmt cell wall) (cells cols rows)) @ newline)\<close>
    and \<open>clear_of ''<circle''
           (join newline (svg_head fmt cols rows cell
                          @ map (rect_line fmt cell wall) (cells cols rows)) @ newline)\<close>
proof -
  have n: \<open>clear_of ''</svg>'' newline\<close> \<open>clear_of ''<circle'' newline\<close>
    by (simp_all add: newline_def)
  have l1: \<open>clear_of ''</svg>'' l\<close>
    if "l \<in> set (svg_head fmt cols rows cell @ map (rect_line fmt cell wall) (cells cols rows))"
    for l
    using that clear_of_svg_head(1) [OF assms] clear_of_rect_line(1) [OF assms] by auto
  have l2: \<open>clear_of ''<circle'' l\<close>
    if "l \<in> set (svg_head fmt cols rows cell @ map (rect_line fmt cell wall) (cells cols rows))"
    for l
    using that clear_of_svg_head(2) [OF assms] clear_of_rect_line(2) [OF assms] by auto
  show \<open>clear_of ''</svg>''
           (join newline (svg_head fmt cols rows cell
                          @ map (rect_line fmt cell wall) (cells cols rows)) @ newline)\<close>
    by (intro clear_of_append clear_of_join n l1)
  show \<open>clear_of ''<circle''
           (join newline (svg_head fmt cols rows cell
                          @ map (rect_line fmt cell wall) (cells cols rows)) @ newline)\<close>
    by (intro clear_of_append clear_of_join n l2)
qed

lemma generate_svg_split:
  \<open>generate_svg fmt cols rows cell wall
     = (join newline (svg_head fmt cols rows cell
                      @ map (rect_line fmt cell wall) (cells cols rows)) @ newline)
       @ ''</svg>''\<close>
proof -
  have "svg_head fmt cols rows cell @ map (rect_line fmt cell wall) (cells cols rows) \<noteq> []"
    by (simp add: svg_head_def Let_def)
  from join_snoc [OF this, of newline "''</svg>''"] show ?thesis
    by (simp add: generate_svg_def svg_lines_def)
qed

lemma preview_svg_document:
  assumes "preview_svg fmt q = resp" and "status resp = 200"
  shows "\<exists>c r ce w d.
           body resp = (if flag (q_posts q) ''0''
                        then replace (generate_svg fmt c r ce w) ''</svg>'' (markers fmt c r ce d)
                        else generate_svg fmt c r ce w)"
  using assms unfolding preview_svg_def invalid_parameters_def Let_def
  apply (clarsimp split: option.splits Option.bind_splits split del: if_split)
  apply (intro exI)
  apply (rule refl)
  done

lemma digit_char_digit: "digit_char d \<in> set ''0123456789''"
proof -
  have "d mod 10 < length ''0123456789''"
    by simp
  then show ?thesis
    unfolding digit_char_def by (rule nth_mem)
qed

lemma digit_char_not_lt: "digit_char d \<noteq> CHR ''<''"
  using digit_char_digit [of d] by auto

lemma str_nat_not_lt: "CHR ''<'' \<notin> set (str_nat n)"
proof (induction n rule: str_nat.induct)
  case (1 n)
  show ?case
  proof (cases "n < 10")
    case True
    then show ?thesis
      using digit_char_not_lt [of n] by (subst str_nat.simps) auto
  next
    case False
    with 1 show ?thesis
      using digit_char_not_lt [of "n mod 10"] by (subst str_nat.simps) auto
  qed
qed

lemma frac_digits_not_lt: "CHR ''<'' \<notin> set (frac_digits n r)"
proof (induction n arbitrary: r)
  case 0
  then show ?case by simp
next
  case (Suc n)
  then show ?case
    using digit_char_not_lt [of "nat \<lfloor>10 * r\<rfloor>"] by (auto simp: Let_def)
qed

lemma repr_dec_not_lt: "CHR ''<'' \<notin> set (repr_dec x)"
  by (simp add: repr_dec_def str_nat_not_lt frac_digits_not_lt)

text \<open>
  C10. Let the formatter of floats never write the character \<open><\<close> (Python writes a
  float with digits, a point, a sign, \<^verbatim>\<open>e\<close>, \<^verbatim>\<open>inf\<close> or \<^verbatim>\<open>nan\<close>). Then the text of
  \<^verbatim>\<open>generate_svg\<close> holds no \<^verbatim>\<open><circle\<close> and ends with \<^verbatim>\<open></svg>\<close>; the substitution of
  line 177 finds that one closing tag and puts the markers in its place, that is,
  directly before the closing tag with which the markers end; and a preview answered
  with a document is the text of \<^verbatim>\<open>generate_svg\<close> when the posts are off, and that text
  with the markers before the closing tag when they are on.
\<close>

theorem preview_markers:
  \<open>\<forall>x. CHR ''<'' \<notin> set (fmt x) \<Longrightarrow> preview_svg fmt q = resp \<Longrightarrow> status resp = 200 \<Longrightarrow>
   \<not> contains (generate_svg fmt cols rows cell wall) ''<circle''
   \<and> generate_svg fmt cols rows cell wall
     = join newline (svg_head fmt cols rows cell
                     @ map (rect_line fmt cell wall) (cells cols rows)) @ newline
       @ ''</svg>''
   \<and> replace (generate_svg fmt cols rows cell wall) ''</svg>''
       (markers fmt cols rows cell post_d)
     = join newline (svg_head fmt cols rows cell
                     @ map (rect_line fmt cell wall) (cells cols rows)) @ newline
       @ markers fmt cols rows cell post_d
   \<and> markers fmt cols rows cell post_d
     = newline @ join newline (map (circle_line fmt cell post_d) (cells cols rows))
       @ newline @ ''</svg>''
   \<and> (\<exists>c r ce w d.
         body resp
         = join newline (svg_head fmt c r ce @ map (rect_line fmt ce w) (cells c r))
           @ newline
           @ (if flag (q_posts q) ''0'' then markers fmt c r ce d else ''</svg>''))\<close>
proof -
  assume f: "\<forall>x. CHR ''<'' \<notin> set (fmt x)"
    and p: "preview_svg fmt q = resp" and s: "status resp = 200"
  have a: \<open>\<not> contains (generate_svg fmt c r ce w) ''<circle''\<close> for c r ce w
    unfolding generate_svg_split
    by (subst contains_clear [OF clear_of_svg_body(2) [OF f]]) simp_all
  have b: \<open>replace (generate_svg fmt c r ce w) ''</svg>'' new
      = join newline (svg_head fmt c r ce @ map (rect_line fmt ce w) (cells c r)) @ newline
        @ new\<close> for c r ce w new
  proof -
    have r: "replace s ''</svg>'' new = replace_from s ''</svg>'' new" for s
      by (simp add: replace_def)
    show ?thesis
      unfolding generate_svg_split r
      by (subst replace_from_clear [OF clear_of_svg_body(1) [OF f]]) simp
  qed
  from preview_svg_document [OF p s] obtain c r ce w d where
    "body resp = (if flag (q_posts q) ''0''
                  then replace (generate_svg fmt c r ce w) ''</svg>'' (markers fmt c r ce d)
                  else generate_svg fmt c r ce w)"
    by blast
  then have c: \<open>body resp
      = join newline (svg_head fmt c r ce @ map (rect_line fmt ce w) (cells c r)) @ newline
        @ (if flag (q_posts q) ''0'' then markers fmt c r ce d else ''</svg>'')\<close>
    using b [of c r ce w] generate_svg_split [of fmt c r ce w] by (simp split: if_splits)
  show ?thesis
    apply (intro conjI)
        apply (rule a)
       apply (use generate_svg_split [of fmt cols rows cell wall] in simp)
      apply (rule b)
     apply (simp add: markers_def)
    apply (use c in blast)
    done
qed

theorem preview_markers_witness:
  \<open>(\<forall>x. CHR ''<'' \<notin> set (repr_dec x))
   \<and> status (preview_svg repr_dec
               (empty_query\<lparr>q_cols := Given 1, q_rows := Given 1, q_posts := Some ''1''\<rparr>))
     = 200
   \<and> \<not> contains (generate_svg repr_dec 1 1 51 3) ''<circle''
   \<and> body (preview_svg repr_dec
             (empty_query\<lparr>q_cols := Given 1, q_rows := Given 1, q_posts := Some ''1''\<rparr>))
     = join newline
         [''<svg xmlns="http://www.w3.org/2000/svg" viewBox="0 0 51.0 51.0" width="51.0px" height="51.0px">'',
          ''<style>rect{fill:#f5f5f5;stroke:#333;stroke-width:0.5}</style>'',
          ''<rect x="0" y="0" width="51.0" height="51.0" fill="none" stroke="#000" stroke-width="1"/>'',
          ''<rect x="1.5" y="1.5" width="48.0" height="48.0" />'',
          '''',
          ''<circle cx="25.5" cy="25.5" r="3.0" fill="#666" opacity="0.6" />'',
          ''</svg>'']\<close>
proof -
  have f: "\<forall>x. CHR ''<'' \<notin> set (repr_dec x)"
    by (simp add: repr_dec_not_lt)
  have s: "status (preview_svg repr_dec
               (empty_query\<lparr>q_cols := Given 1, q_rows := Given 1, q_posts := Some ''1''\<rparr>))
     = 200"
    by code_simp
  have b: \<open>body (preview_svg repr_dec
             (empty_query\<lparr>q_cols := Given 1, q_rows := Given 1, q_posts := Some ''1''\<rparr>))
     = join newline
         [''<svg xmlns="http://www.w3.org/2000/svg" viewBox="0 0 51.0 51.0" width="51.0px" height="51.0px">'',
          ''<style>rect{fill:#f5f5f5;stroke:#333;stroke-width:0.5}</style>'',
          ''<rect x="0" y="0" width="51.0" height="51.0" fill="none" stroke="#000" stroke-width="1"/>'',
          ''<rect x="1.5" y="1.5" width="48.0" height="48.0" />'',
          '''',
          ''<circle cx="25.5" cy="25.5" r="3.0" fill="#666" opacity="0.6" />'',
          ''</svg>'']\<close>
    by code_simp
  from preview_markers [OF f refl s, of 1 1 51 3 6]
  have \<open>\<not> contains (generate_svg repr_dec 1 1 51 3) ''<circle''\<close>
    by blast
  with f s b show ?thesis
    by blast
qed

subsection \<open>Determinism\<close>



end
